theory Spec2Isabelle
  imports Complex_Main "HOL-Library.Sublist" "HOL-Library.AList"
begin

section \<open>Python values used by make\_concept\_subset.py\<close>

text \<open>
  A Python \<open>str\<close> is a sequence of Unicode code points. The only string operations
  of the script are \<open>str.strip\<close>, concatenation and comparison, so a code point is
  a natural number.
\<close>

type_synonym pystr = "nat list"

definition py_str :: "string \<Rightarrow> pystr" where
  "py_str s = map of_char s"

text \<open>The characters \<open>str.strip()\<close> removes: those for which \<open>str.isspace\<close> holds.\<close>

definition isspace :: "nat \<Rightarrow> bool" where
  "isspace c =
     ((9 \<le> c \<and> c \<le> 13) \<or> (28 \<le> c \<and> c \<le> 32) \<or> c = 133 \<or> c = 160 \<or> c = 5760 \<or>
      (8192 \<le> c \<and> c \<le> 8202) \<or> c = 8232 \<or> c = 8233 \<or> c = 8239 \<or> c = 8287 \<or>
      c = 12288)"

definition strip :: "pystr \<Rightarrow> pystr" where
  "strip s = rev (dropWhile isspace (rev (dropWhile isspace s)))"

text \<open>
  The exceptions the script can meet. \<open>SourceNotFound p\<close> is the
  \<open>FileNotFoundError("Source directory not found: p")\<close> that \<open>main\<close> raises itself;
  \<open>FileNotFoundError p\<close> is the one the operating system gives for a missing path.
\<close>

type_synonym path = "string list"

datatype error =
    SourceNotFound path
  | FileNotFoundError path
  | FileExistsError path
  | NotADirectoryError path
  | IsADirectoryError path
  | SameFileError path
  | UnicodeDecodeError
  | JSONDecodeError
  | AttributeError
  | TypeError
  | ValueError
  | OverflowError
  | KeyError string
  | ArrowInvalid

text \<open>
  What \<open>json.loads\<close> returns. A float is a rational (every finite double is one), or one
  of the three special values \<open>json.loads\<close> accepts. A decoded object is a \<open>dict\<close>: an
  association list read with \<open>map_of\<close>.
\<close>

datatype pyfloat = Finite rat | NaN | PosInfinity | NegInfinity

datatype json =
    JNull
  | JBool bool
  | JInt int
  | JFloat pyfloat
  | JStr pystr
  | JArr "json list"
  | JObj "(pystr \<times> json) list"

text \<open>
  The library functions the script calls and does not define: \<open>json.loads\<close> (\<open>None\<close> when
  it raises), \<open>json.dumps\<close>, and the builtin \<open>int\<close> on a \<open>str\<close> (\<open>None\<close> when it raises
  \<open>ValueError\<close>). They are parameters of the model.
\<close>

record jsonlib =
  loads :: "pystr \<Rightarrow> json option"
  dumps :: "json \<Rightarrow> pystr"
  int_of_str :: "pystr \<Rightarrow> int option"

text \<open>\<open>int(x)\<close> on a float truncates towards zero.\<close>

definition trunc :: "rat \<Rightarrow> int" where
  "trunc q = (if 0 \<le> q then \<lfloor>q\<rfloor> else \<lceil>q\<rceil>)"

fun py_int :: "jsonlib \<Rightarrow> json \<Rightarrow> error + int" where
  "py_int lib (JInt i) = Inr i"
| "py_int lib (JBool b) = Inr (if b then 1 else 0)"
| "py_int lib (JFloat (Finite q)) = Inr (trunc q)"
| "py_int lib (JFloat NaN) = Inl ValueError"
| "py_int lib (JFloat PosInfinity) = Inl OverflowError"
| "py_int lib (JFloat NegInfinity) = Inl OverflowError"
| "py_int lib (JStr s) = (case int_of_str lib s of Some i \<Rightarrow> Inr i | None \<Rightarrow> Inl ValueError)"
| "py_int lib JNull = Inl TypeError"
| "py_int lib (JArr xs) = Inl TypeError"
| "py_int lib (JObj d) = Inl TypeError"

text \<open>\<open>d.get(k, default)\<close>.\<close>

definition dict_get :: "(pystr \<times> json) list \<Rightarrow> pystr \<Rightarrow> json \<Rightarrow> json" where
  "dict_get d k dflt = (case map_of d k of Some v \<Rightarrow> v | None \<Rightarrow> dflt)"

section \<open>The record filter\<close>

text \<open>
  \<open>int(record.get("concept_id", -1))\<close>: only a \<open>dict\<close> has \<open>get\<close>; any other decoded
  value raises \<open>AttributeError\<close>.
\<close>

definition record_concept_id :: "jsonlib \<Rightarrow> json \<Rightarrow> error + int" where
  "record_concept_id lib record =
     (case record of
        JObj d \<Rightarrow> py_int lib (dict_get d (py_str ''concept_id'') (JInt (- 1)))
      | _ \<Rightarrow> Inl AttributeError)"

text \<open>
  The loop of \<open>_write_filtered_metadata\<close> over the lines of \<open>fin\<close>. \<open>out\<close> is what has
  been written to \<open>fout\<close> so far; it is returned with the exception, if any, since the
  \<open>with\<close> statement closes (and flushes) \<open>fout\<close> when the loop raises.
\<close>

fun filter_lines :: "jsonlib \<Rightarrow> int set \<Rightarrow> pystr list \<Rightarrow> pystr list \<Rightarrow> error option \<times> pystr list" where
  "filter_lines lib keep_ids [] out = (None, out)"
| "filter_lines lib keep_ids (line # rest) out =
     (if strip line = [] then filter_lines lib keep_ids rest out
      else
        (case loads lib line of
           None \<Rightarrow> (Some JSONDecodeError, out)
         | Some record \<Rightarrow>
             (case record_concept_id lib record of
                Inl e \<Rightarrow> (Some e, out)
              | Inr i \<Rightarrow>
                  if i \<in> keep_ids
                  then filter_lines lib keep_ids rest (out @ [dumps lib record @ [10]])
                  else filter_lines lib keep_ids rest out)))"

section \<open>The columnar filter\<close>

text \<open>
  A \<open>DataFrame\<close>: the column names and the rows, each row holding one cell per column.
  A cell missing from a short row reads as null.
\<close>

datatype cell = CInt int | CStr pystr | CNull

record dataframe =
  columns :: "string list"
  rows :: "cell list list"

definition cell_at :: "cell list \<Rightarrow> nat \<Rightarrow> cell" where
  "cell_at r i = (if i < length r then r ! i else CNull)"

definition column_index :: "string list \<Rightarrow> string \<Rightarrow> nat" where
  "column_index cols name = length (takeWhile (\<lambda>c. c \<noteq> name) cols)"

text \<open>\<open>df[name]\<close>: the column as a series, \<open>KeyError\<close> when there is no such column.\<close>

definition df_getitem :: "dataframe \<Rightarrow> string \<Rightarrow> error + cell list" where
  "df_getitem df name =
     (if name \<in> set (columns df)
      then Inr (map (\<lambda>r. cell_at r (column_index (columns df) name)) (rows df))
      else Inl (KeyError name))"

text \<open>\<open>series.isin(keep_ids)\<close>, \<open>series == v\<close>, \<open>mask.any()\<close>, \<open>mask |= other\<close>, \<open>df.loc[mask]\<close>.\<close>

definition isin :: "cell list \<Rightarrow> int set \<Rightarrow> bool list" where
  "isin s keep_ids = map (\<lambda>c. case c of CInt i \<Rightarrow> i \<in> keep_ids | _ \<Rightarrow> False) s"

definition series_eq :: "cell list \<Rightarrow> int \<Rightarrow> bool list" where
  "series_eq s v = map (\<lambda>c. c = CInt v) s"

definition any_true :: "bool list \<Rightarrow> bool" where
  "any_true m = (True \<in> set m)"

definition mask_or :: "bool list \<Rightarrow> bool list \<Rightarrow> bool list" where
  "mask_or a b = map (\<lambda>(x, y). x \<or> y) (zip a b)"

definition loc :: "dataframe \<Rightarrow> bool list \<Rightarrow> dataframe" where
  "loc df msk = df\<lparr>rows := map fst (filter snd (zip (rows df) msk))\<rparr>"

text \<open>Lines 26 to 29 of \<open>_filter_parquet\<close>: from the frame read to the frame written.\<close>

definition filter_frame :: "int set \<Rightarrow> bool \<Rightarrow> dataframe \<Rightarrow> error + dataframe" where
  "filter_frame keep_ids keep_negative df =
     (case df_getitem df ''concept_id'' of
        Inl e \<Rightarrow> Inl e
      | Inr s \<Rightarrow>
          (let msk = isin s keep_ids;
               msk' = (if keep_negative \<and> any_true (series_eq s (- 1))
                        then mask_or msk (series_eq s (- 1)) else msk)
           in Inr (loc df msk')))"

text \<open>
  The simpler variant of the same lines, without the \<open>.any()\<close> guard: the sentinel rows
  are united into the mask whenever \<open>keep_negative\<close> is set.
\<close>

definition filter_frame_unguarded :: "int set \<Rightarrow> bool \<Rightarrow> dataframe \<Rightarrow> error + dataframe" where
  "filter_frame_unguarded keep_ids keep_negative df =
     (case df_getitem df ''concept_id'' of
        Inl e \<Rightarrow> Inl e
      | Inr s \<Rightarrow>
          (let msk = isin s keep_ids;
               msk' = (if keep_negative then mask_or msk (series_eq s (- 1)) else msk)
           in Inr (loc df msk')))"

section \<open>The file system\<close>

text \<open>
  The script reads and writes files through \<open>pathlib\<close>, \<open>shutil\<close> and \<open>pandas\<close>. The file
  system is a store from paths to nodes; the order of its entries is the order in which
  the operating system lists them. A path is the list of its components, so
  \<open>p / name\<close> is \<open>p @ [name]\<close> and \<open>p.parent\<close> is \<open>butlast p\<close>; there are no links and no
  \<open>..\<close> components. A file holds text (the lines that iterating over it yields, each with
  its line end), a table (what \<open>pandas.read_parquet\<close> returns for it), or other bytes.
  Reading a file as the wrong kind fails, and so does reading a directory as a table.
\<close>

datatype content = Text "pystr list" | Table dataframe | Blob "nat list"

datatype node = DirN | FileN content

type_synonym filesystem = "(path \<times> node) list"

text \<open>A procedure returns the exception it raised, if any, and the file system it left.\<close>

type_synonym io = "filesystem \<Rightarrow> error option \<times> filesystem"

definition path_exists :: "filesystem \<Rightarrow> path \<Rightarrow> bool" where
  "path_exists fs p = (map_of fs p \<noteq> None)"

definition is_file :: "filesystem \<Rightarrow> path \<Rightarrow> bool" where
  "is_file fs p = (case map_of fs p of Some (FileN c) \<Rightarrow> True | _ \<Rightarrow> False)"

definition is_dir :: "filesystem \<Rightarrow> path \<Rightarrow> bool" where
  "is_dir fs p = (map_of fs p = Some DirN)"

text \<open>
  \<open>d.mkdir(parents=True, exist_ok=True)\<close>: fails when \<open>d\<close> or one of its ancestors is a
  file, and creates the missing directories from the top otherwise.
\<close>

definition mkdir_p :: "path \<Rightarrow> io" where
  "mkdir_p d fs =
     (case find (is_file fs) (prefixes d) of
        Some q \<Rightarrow> (Some (if q = d then FileExistsError d else NotADirectoryError d), fs)
      | None \<Rightarrow>
          (None, fs @ map (\<lambda>q. (q, DirN)) (filter (\<lambda>q. map_of fs q = None) (prefixes d))))"

text \<open>Opening a file for reading gives its content.\<close>

definition open_r :: "filesystem \<Rightarrow> path \<Rightarrow> error + content" where
  "open_r fs p =
     (case map_of fs p of
        None \<Rightarrow> Inl (FileNotFoundError p)
      | Some DirN \<Rightarrow> Inl (IsADirectoryError p)
      | Some (FileN c) \<Rightarrow> Inr c)"

definition read_lines :: "filesystem \<Rightarrow> path \<Rightarrow> error + pystr list" where
  "read_lines fs p =
     (case open_r fs p of
        Inl e \<Rightarrow> Inl e
      | Inr (Text ls) \<Rightarrow> Inr ls
      | Inr _ \<Rightarrow> Inl UnicodeDecodeError)"

definition read_parquet :: "filesystem \<Rightarrow> path \<Rightarrow> error + dataframe" where
  "read_parquet fs p =
     (case open_r fs p of
        Inl e \<Rightarrow> Inl e
      | Inr (Table df) \<Rightarrow> Inr df
      | Inr _ \<Rightarrow> Inl ArrowInvalid)"

text \<open>
  Opening \<open>p\<close> for writing creates or truncates it; \<open>write_file\<close> is open, write the whole
  content, close.
\<close>

definition open_w :: "filesystem \<Rightarrow> path \<Rightarrow> error option" where
  "open_w fs p =
     (case map_of fs (butlast p) of
        None \<Rightarrow> Some (FileNotFoundError p)
      | Some (FileN c) \<Rightarrow> Some (NotADirectoryError p)
      | Some DirN \<Rightarrow> (if is_dir fs p then Some (IsADirectoryError p) else None))"

definition write_file :: "path \<Rightarrow> content \<Rightarrow> io" where
  "write_file p c fs =
     (case open_w fs p of
        Some e \<Rightarrow> (Some e, fs)
      | None \<Rightarrow> (None, AList.update p (FileN c) fs))"

text \<open>\<open>d.iterdir()\<close>: the entries of \<open>d\<close>, as listed when the loop starts.\<close>

definition iterdir :: "filesystem \<Rightarrow> path \<Rightarrow> error + path list" where
  "iterdir fs d =
     (case map_of fs d of
        None \<Rightarrow> Inl (FileNotFoundError d)
      | Some (FileN c) \<Rightarrow> Inl (NotADirectoryError d)
      | Some DirN \<Rightarrow> Inr (filter (\<lambda>p. p \<noteq> [] \<and> butlast p = d) (map fst fs)))"

text \<open>
  \<open>shutil.copy2(src, dst)\<close>: copies into \<open>dst\<close> when \<open>dst\<close> is a directory, and refuses to
  copy a file onto itself. Time stamps and permissions are not modelled.
\<close>

definition copyfile :: "path \<Rightarrow> path \<Rightarrow> io" where
  "copyfile src dst fs =
     (if src = dst then (Some (SameFileError src), fs)
      else
        (case open_r fs src of
           Inl e \<Rightarrow> (Some e, fs)
         | Inr c \<Rightarrow> write_file dst c fs))"

definition copy2 :: "path \<Rightarrow> path \<Rightarrow> io" where
  "copy2 src dst fs = copyfile src (if is_dir fs dst then dst @ [last src] else dst) fs"

section \<open>The procedures of the script\<close>

text \<open>
  \<open>_write_filtered_metadata\<close>. Both files are opened before the first line is read, so
  \<open>dst\<close> is truncated first and the lines are those of \<open>src\<close> afterwards.
\<close>

definition write_filtered_metadata :: "jsonlib \<Rightarrow> path \<Rightarrow> path \<Rightarrow> int set \<Rightarrow> io" where
  "write_filtered_metadata lib src dst keep_ids fs =
     (case mkdir_p (butlast dst) fs of
        (Some e, fs1) \<Rightarrow> (Some e, fs1)
      | (None, fs1) \<Rightarrow>
          (case open_r fs1 src of
             Inl e \<Rightarrow> (Some e, fs1)
           | Inr c \<Rightarrow>
               (case write_file dst (Text []) fs1 of
                  (Some e, fs2) \<Rightarrow> (Some e, fs2)
                | (None, fs2) \<Rightarrow>
                    (case read_lines fs2 src of
                       Inl e \<Rightarrow> (Some e, fs2)
                     | Inr lines \<Rightarrow>
                         (case filter_lines lib keep_ids lines [] of
                            (err, out) \<Rightarrow> (err, AList.update dst (FileN (Text out)) fs2))))))"

definition filter_parquet :: "path \<Rightarrow> path \<Rightarrow> int set \<Rightarrow> bool \<Rightarrow> io" where
  "filter_parquet src dst keep_ids keep_negative fs =
     (case mkdir_p (butlast dst) fs of
        (Some e, fs1) \<Rightarrow> (Some e, fs1)
      | (None, fs1) \<Rightarrow>
          (case read_parquet fs1 src of
             Inl e \<Rightarrow> (Some e, fs1)
           | Inr df \<Rightarrow>
               (case filter_frame keep_ids keep_negative df of
                  Inl e \<Rightarrow> (Some e, fs1)
                | Inr df' \<Rightarrow> write_file dst (Table df') fs1)))"

text \<open>The loop of \<open>_mirror_misc_files\<close> over the listed items.\<close>

fun mirror_items :: "path list \<Rightarrow> path \<Rightarrow> string set \<Rightarrow> io" where
  "mirror_items [] dst_dir handled fs = (None, fs)"
| "mirror_items (item # rest) dst_dir handled fs =
     (if last item \<in> handled then mirror_items rest dst_dir handled fs
      else if is_file fs item then
        (case mkdir_p dst_dir fs of
           (Some e, fs1) \<Rightarrow> (Some e, fs1)
         | (None, fs1) \<Rightarrow>
             (case copy2 item (dst_dir @ [last item]) fs1 of
                (Some e, fs2) \<Rightarrow> (Some e, fs2)
              | (None, fs2) \<Rightarrow> mirror_items rest dst_dir handled fs2))
      else mirror_items rest dst_dir handled fs)"

definition mirror_misc_files :: "path \<Rightarrow> path \<Rightarrow> string set \<Rightarrow> io" where
  "mirror_misc_files src_dir dst_dir handled fs =
     (case iterdir fs src_dir of
        Inl e \<Rightarrow> (Some e, fs)
      | Inr items \<Rightarrow> mirror_items items dst_dir handled fs)"

text \<open>
  \<open>subset_single_directory\<close>, in the order of the source: the metadata file (lines 46 to
  49), the training table and the mirror of \<open>generate\<close> (lines 50 to 54), the whole
  \<open>generate\<close> block (lines 42 to 54), the \<open>inference\<close> block (lines 56 to 64).
\<close>

definition generate_parquet_and_mirror ::
  "path \<Rightarrow> path \<Rightarrow> int set \<Rightarrow> bool \<Rightarrow> string set \<Rightarrow> io" where
  "generate_parquet_and_mirror generate_src generate_dst keep_ids keep_negative handled fs =
     (let parquet_src = generate_src @ [''train_data.parquet''] in
      if path_exists fs parquet_src then
        (case filter_parquet parquet_src (generate_dst @ [''train_data.parquet''])
                keep_ids keep_negative fs of
           (Some e, fs1) \<Rightarrow> (Some e, fs1)
         | (None, fs1) \<Rightarrow>
             mirror_misc_files generate_src generate_dst
               (insert ''train_data.parquet'' handled) fs1)
      else mirror_misc_files generate_src generate_dst handled fs)"

definition subset_generate :: "jsonlib \<Rightarrow> path \<Rightarrow> path \<Rightarrow> int set \<Rightarrow> bool \<Rightarrow> io" where
  "subset_generate lib src_base dst_base keep_ids keep_negative fs =
     (let generate_src = src_base @ [''generate''] in
      if path_exists fs generate_src then
        (let generate_dst = dst_base @ [''generate''];
             metadata_src = generate_src @ [''metadata.jsonl'']
         in
           if path_exists fs metadata_src then
             (case write_filtered_metadata lib metadata_src
                     (generate_dst @ [''metadata.jsonl'']) keep_ids fs of
                (Some e, fs1) \<Rightarrow> (Some e, fs1)
              | (None, fs1) \<Rightarrow>
                  generate_parquet_and_mirror generate_src generate_dst keep_ids keep_negative
                    {''metadata.jsonl''} fs1)
           else
             generate_parquet_and_mirror generate_src generate_dst keep_ids keep_negative {} fs)
      else (None, fs))"

definition subset_inference :: "path \<Rightarrow> path \<Rightarrow> int set \<Rightarrow> io" where
  "subset_inference src_base dst_base keep_ids fs =
     (let inference_src = src_base @ [''inference''] in
      if path_exists fs inference_src then
        (let inference_dst = dst_base @ [''inference''];
             latent_src = inference_src @ [''latent_eval_data.parquet'']
         in
           if path_exists fs latent_src then
             (case filter_parquet latent_src (inference_dst @ [''latent_eval_data.parquet''])
                     keep_ids False fs of
                (Some e, fs1) \<Rightarrow> (Some e, fs1)
              | (None, fs1) \<Rightarrow>
                  mirror_misc_files inference_src inference_dst
                    {''latent_eval_data.parquet''} fs1)
           else mirror_misc_files inference_src inference_dst {} fs)
      else (None, fs))"

definition subset_single_directory ::
  "jsonlib \<Rightarrow> path \<Rightarrow> path \<Rightarrow> int set \<Rightarrow> bool \<Rightarrow> io" where
  "subset_single_directory lib src_base dst_base keep_ids keep_negative fs =
     (case subset_generate lib src_base dst_base keep_ids keep_negative fs of
        (Some e, fs1) \<Rightarrow> (Some e, fs1)
      | (None, fs1) \<Rightarrow> subset_inference src_base dst_base keep_ids fs1)"

text \<open>
  \<open>main\<close>. The parsed arguments are a record; a sub-directory name is one path component.
  The loop returns, with the exception and the file system, the confirmation lines it
  printed: the name and the destination of every sub-directory it completed.
\<close>

record args =
  source_root :: path
  target_root :: path
  subdirs :: "string list"
  concept_ids :: "int list"
  drop_negative :: bool

fun main_loop ::
  "jsonlib \<Rightarrow> path \<Rightarrow> path \<Rightarrow> int set \<Rightarrow> bool \<Rightarrow> string list \<Rightarrow> filesystem \<Rightarrow>
     error option \<times> (string \<times> path) list \<times> filesystem" where
  "main_loop lib src_root dst_root keep_ids keep_negative [] fs = (None, [], fs)"
| "main_loop lib src_root dst_root keep_ids keep_negative (subdir # rest) fs =
     (let src_base = src_root @ [subdir] in
      if \<not> path_exists fs src_base then (Some (SourceNotFound src_base), [], fs)
      else
        (let dst_base = dst_root @ [subdir] in
         case subset_single_directory lib src_base dst_base keep_ids keep_negative fs of
           (Some e, fs1) \<Rightarrow> (Some e, [], fs1)
         | (None, fs1) \<Rightarrow>
             (case main_loop lib src_root dst_root keep_ids keep_negative rest fs1 of
                (err, printed, fs2) \<Rightarrow> (err, (subdir, dst_base) # printed, fs2))))"

definition main :: "jsonlib \<Rightarrow> args \<Rightarrow> filesystem \<Rightarrow> error option \<times> (string \<times> path) list \<times> filesystem" where
  "main lib a fs =
     main_loop lib (source_root a) (target_root a) (set (concept_ids a))
       (\<not> drop_negative a) (subdirs a) fs"

section \<open>Notions used to state the properties\<close>

text \<open>The \<open>concept_id\<close> cell of a row, and the rows the columnar filter is to keep.\<close>

definition row_concept_id :: "dataframe \<Rightarrow> cell list \<Rightarrow> cell" where
  "row_concept_id df r = cell_at r (column_index (columns df) ''concept_id'')"

definition kept_row :: "int set \<Rightarrow> bool \<Rightarrow> dataframe \<Rightarrow> cell list \<Rightarrow> bool" where
  "kept_row keep_ids keep_negative df r =
     (row_concept_id df r \<in> CInt ` keep_ids \<or>
      (keep_negative \<and> CInt (- 1) \<in> row_concept_id df ` set (rows df) \<and>
       row_concept_id df r = CInt (- 1)))"

text \<open>\<open>_filter_parquet\<close> with the unguarded variant of lines 26 to 29.\<close>

definition filter_parquet_unguarded :: "path \<Rightarrow> path \<Rightarrow> int set \<Rightarrow> bool \<Rightarrow> io" where
  "filter_parquet_unguarded src dst keep_ids keep_negative fs =
     (case mkdir_p (butlast dst) fs of
        (Some e, fs1) \<Rightarrow> (Some e, fs1)
      | (None, fs1) \<Rightarrow>
          (case read_parquet fs1 src of
             Inl e \<Rightarrow> (Some e, fs1)
           | Inr df \<Rightarrow>
               (case filter_frame_unguarded keep_ids keep_negative df of
                  Inl e \<Rightarrow> (Some e, fs1)
                | Inr df' \<Rightarrow> write_file dst (Table df') fs1)))"

section \<open>Sample data\<close>

text \<open>
  A few lines of a metadata file with what \<open>json.loads\<close> and \<open>json.dumps\<close> give on them,
  a small table, and a source tree that holds them.
\<close>

definition sample_table :: "(pystr \<times> json) list" where
  \<open>sample_table =
     [(py_str ''{"concept_id": 0}'', JObj [(py_str ''concept_id'', JInt 0)]),
      (py_str ''{"concept_id": 2}'', JObj [(py_str ''concept_id'', JInt 2)]),
      (py_str ''{"text": "a"}'', JObj [(py_str ''text'', JStr (py_str ''a''))]),
      (py_str ''{"concept_id": null}'', JObj [(py_str ''concept_id'', JNull)])]\<close>

definition sample_lib :: jsonlib where
  "sample_lib =
     \<lparr>loads = (\<lambda>line. map_of sample_table (strip line)),
      dumps = (\<lambda>r. case find (\<lambda>(t, v). v = r) sample_table of Some (t, v) \<Rightarrow> t | None \<Rightarrow> []),
      int_of_str = (\<lambda>s. None)\<rparr>"

definition sample_lines :: "pystr list" where
  \<open>sample_lines =
     [py_str ''{"concept_id": 0}'' @ [10], [32, 32, 10],
      py_str ''{"concept_id": 2}'' @ [10], py_str ''{"text": "a"}'' @ [10]]\<close>

definition sample_frame :: dataframe where
  "sample_frame =
     \<lparr>columns = [''concept_id'', ''label''],
      rows = [[CInt 0, CInt 7], [CInt (- 1), CInt 8], [CInt 2, CInt 9], [CInt (- 1), CInt 5]]\<rparr>"

definition sample_fs :: filesystem where
  "sample_fs =
     [([], DirN),
      ([''data''], DirN),
      ([''data'', ''run''], DirN),
      ([''data'', ''run'', ''generate''], DirN),
      ([''data'', ''run'', ''generate'', ''metadata.jsonl''], FileN (Text sample_lines)),
      ([''data'', ''run'', ''generate'', ''train_data.parquet''], FileN (Table sample_frame)),
      ([''data'', ''run'', ''generate'', ''config.yaml''], FileN (Blob [107, 58, 49])),
      ([''data'', ''run'', ''inference''], DirN),
      ([''data'', ''run'', ''inference'', ''latent_eval_data.parquet''],
         FileN (Table sample_frame))]"

section \<open>The columnar filter keeps the right rows\<close>

lemma filter_zip_map: "map fst (filter snd (zip xs (map f xs))) = filter f xs"
  by (induction xs) auto

lemma mask_or_maps: "mask_or (map f xs) (map g xs) = map (\<lambda>x. f x \<or> g x) xs"
  by (induction xs) (auto simp: mask_or_def)

lemma isin_map: "isin (map f xs) K = map (\<lambda>x. f x \<in> CInt ` K) xs"
proof -
  have "(case c of CInt i \<Rightarrow> i \<in> K | _ \<Rightarrow> False) = (c \<in> CInt ` K)" for c
    by (cases c) auto
  then show ?thesis by (simp add: isin_def)
qed

lemma series_eq_map: "series_eq (map f xs) v = map (\<lambda>x. f x = CInt v) xs"
  by (simp add: series_eq_def)

lemma any_true_map: "any_true (map P xs) = (\<exists>x\<in>set xs. P x)"
  by (auto simp: any_true_def)

lemma getitem_concept_id:
  "''concept_id'' \<in> set (columns df) \<Longrightarrow>
   df_getitem df ''concept_id'' = Inr (map (row_concept_id df) (rows df))"
  by (simp add: df_getitem_def row_concept_id_def)

lemma final_mask:
  "(if kn \<and> any_true (series_eq (map (row_concept_id df) (rows df)) (- 1))
    then mask_or (isin (map (row_concept_id df) (rows df)) K)
           (series_eq (map (row_concept_id df) (rows df)) (- 1))
    else isin (map (row_concept_id df) (rows df)) K) =
   map (kept_row K kn df) (rows df)"
proof -
  have any: "any_true (series_eq (map (row_concept_id df) (rows df)) (- 1)) =
      (CInt (- 1) \<in> row_concept_id df ` set (rows df))"
    by (force simp: series_eq_map any_true_map image_iff)
  show ?thesis
    unfolding any by (auto simp: isin_map series_eq_map mask_or_maps kept_row_def)
qed

lemma filter_frame_rows:
  assumes "''concept_id'' \<in> set (columns df)"
  shows "filter_frame K kn df = Inr (df\<lparr>rows := filter (kept_row K kn df) (rows df)\<rparr>)"
  unfolding filter_frame_def getitem_concept_id [OF assms]
  by (simp only: Let_def final_mask sum.case loc_def filter_zip_map)

lemma filter_frame_eq_unguarded: "filter_frame K kn df = filter_frame_unguarded K kn df"
proof (cases "''concept_id'' \<in> set (columns df)")
  case False
  then show ?thesis by (simp add: filter_frame_def filter_frame_unguarded_def df_getitem_def)
next
  case True
  have "\<not> any_true (series_eq s (- 1)) \<Longrightarrow> mask_or (isin s K) (series_eq s (- 1)) = isin s K" for s
    by (induction s) (auto simp: any_true_def series_eq_def isin_def mask_or_def)
  then show ?thesis
    unfolding filter_frame_def filter_frame_unguarded_def getitem_concept_id [OF True]
    by (auto simp: Let_def)
qed

lemma filter_frame_no_column:
  "''concept_id'' \<notin> set (columns df) \<Longrightarrow> filter_frame K kn df = Inl (KeyError ''concept_id'')"
  by (simp add: filter_frame_def df_getitem_def)

section \<open>Facts about the file system operations\<close>

lemma mkdir_p_error: "mkdir_p d fs = (Some e, fs1) \<Longrightarrow> fs1 = fs"
  by (auto simp: mkdir_p_def split: option.splits)

lemma mkdir_p_lookup:
  "mkdir_p d fs = (None, fs1) \<Longrightarrow> map_of fs p = Some v \<Longrightarrow> map_of fs1 p = Some v"
  by (auto simp: mkdir_p_def map_add_def split: option.splits)

lemma filter_parquet_rows:
  assumes src: "map_of fs src = Some (FileN (Table df))"
    and col: "''concept_id'' \<in> set (columns df)"
  shows "filter_parquet src dst K kn fs =
     (case mkdir_p (butlast dst) fs of
        (Some e, fs1) \<Rightarrow> (Some e, fs1)
      | (None, fs1) \<Rightarrow>
          write_file dst (Table (df\<lparr>rows := filter (kept_row K kn df) (rows df)\<rparr>)) fs1)"
proof (cases "mkdir_p (butlast dst) fs")
  case (Pair e fs1)
  show ?thesis
  proof (cases e)
    case (Some err)
    with Pair show ?thesis by (simp add: filter_parquet_def)
  next
    case None
    with Pair have mk: "mkdir_p (butlast dst) fs = (None, fs1)" by simp
    have "read_parquet fs1 src = Inr df"
      using mkdir_p_lookup [OF mk src] by (simp add: read_parquet_def open_r_def)
    then show ?thesis
      by (simp add: filter_parquet_def mk filter_frame_rows [OF col])
  qed
qed

section \<open>The record filter keeps the right records\<close>

lemma filter_lines_append:
  "filter_lines lib K (xs @ ys) out =
     (case filter_lines lib K xs out of
        (None, out1) \<Rightarrow> filter_lines lib K ys out1
      | (Some e, out1) \<Rightarrow> (Some e, out1))"
  by (induction xs arbitrary: out) (auto split: option.splits sum.splits)

lemma filter_lines_records:
  assumes "map (loads lib) (filter (\<lambda>l. strip l \<noteq> []) lines) = map Some recs"
    and "\<forall>r\<in>set recs. \<exists>i. record_concept_id lib r = Inr i"
  shows "filter_lines lib K lines out =
     (None, out @ map (\<lambda>r. dumps lib r @ [10])
                    (filter (\<lambda>r. record_concept_id lib r \<in> Inr ` K) recs))"
  using assms
proof (induction lines arbitrary: recs out)
  case Nil
  then show ?case by simp
next
  case (Cons line rest)
  show ?case
  proof (cases "strip line = []")
    case True
    with Cons show ?thesis by simp
  next
    case False
    with Cons.prems(1) obtain r recs' where recs: "recs = r # recs'"
      and r: "loads lib line = Some r"
      and rest: "map (loads lib) (filter (\<lambda>l. strip l \<noteq> []) rest) = map Some recs'"
      by (cases recs) auto
    from Cons.prems(2) recs obtain i where i: "record_concept_id lib r = Inr i" by auto
    from Cons.prems(2) recs have all: "\<forall>r\<in>set recs'. \<exists>i. record_concept_id lib r = Inr i" by simp
    show ?thesis
      using False r i recs Cons.IH [OF rest all] by (auto simp: image_iff)
  qed
qed

lemma filter_lines_bad_line:
  assumes "strip bad \<noteq> []" and "loads lib bad = None"
  shows "filter_lines lib K (pre @ bad # post) out = filter_lines lib K (pre @ [bad]) out"
    and "fst (filter_lines lib K (pre @ bad # post) out) \<noteq> None"
    and "filter_lines lib K pre out = (None, out1) \<Longrightarrow>
         filter_lines lib K (pre @ bad # post) out = (Some JSONDecodeError, out1)"
  using assms by (auto simp: filter_lines_append split: prod.splits option.splits)

lemma write_filtered_metadata_records:
  assumes src: "map_of fs src = Some (FileN (Text lines))"
    and diff: "src \<noteq> dst"
    and recs: "map (loads lib) (filter (\<lambda>l. strip l \<noteq> []) lines) = map Some recs"
    and ids: "\<forall>r\<in>set recs. \<exists>i. record_concept_id lib r = Inr i"
  shows "write_filtered_metadata lib src dst K fs =
     (case mkdir_p (butlast dst) fs of
        (Some e, fs1) \<Rightarrow> (Some e, fs1)
      | (None, fs1) \<Rightarrow>
          write_file dst
            (Text (map (\<lambda>r. dumps lib r @ [10])
                     (filter (\<lambda>r. record_concept_id lib r \<in> Inr ` K) recs))) fs1)"
proof (cases "mkdir_p (butlast dst) fs")
  case (Pair e fs1)
  show ?thesis
  proof (cases e)
    case (Some err)
    with Pair show ?thesis by (simp add: write_filtered_metadata_def)
  next
    case None
    with Pair have mk: "mkdir_p (butlast dst) fs = (None, fs1)" by simp
    have src1: "map_of fs1 src = Some (FileN (Text lines))"
      by (rule mkdir_p_lookup [OF mk src])
    have rd: "open_r fs1 src = Inr (Text lines)" by (simp add: open_r_def src1)
    show ?thesis
    proof (cases "open_w fs1 dst")
      case (Some err)
      then show ?thesis
        by (simp add: write_filtered_metadata_def mk rd write_file_def)
    next
      case None
      have "read_lines (AList.update dst (FileN (Text [])) fs1) src = Inr lines"
        using diff src1 by (simp add: read_lines_def open_r_def update_conv')
      then show ?thesis
        using None filter_lines_records [OF recs ids, of K "[]"]
        by (simp add: write_filtered_metadata_def mk rd write_file_def update_last)
    qed
  qed
qed

lemma write_filtered_metadata_bad_line:
  assumes src: "map_of fs src = Some (FileN (Text (pre @ bad # post)))"
    and diff: "src \<noteq> dst"
    and bad: "strip bad \<noteq> []" "loads lib bad = None"
  shows "fst (write_filtered_metadata lib src dst K fs) \<noteq> None"
proof (cases "mkdir_p (butlast dst) fs")
  case (Pair e fs1)
  show ?thesis
  proof (cases e)
    case (Some err)
    with Pair show ?thesis by (simp add: write_filtered_metadata_def)
  next
    case None
    with Pair have mk: "mkdir_p (butlast dst) fs = (None, fs1)" by simp
    have src1: "map_of fs1 src = Some (FileN (Text (pre @ bad # post)))"
      by (rule mkdir_p_lookup [OF mk src])
    have rd: "open_r fs1 src = Inr (Text (pre @ bad # post))" by (simp add: open_r_def src1)
    show ?thesis
    proof (cases "open_w fs1 dst")
      case (Some err)
      then show ?thesis
        by (simp add: write_filtered_metadata_def mk rd write_file_def)
    next
      case None
      have "read_lines (AList.update dst (FileN (Text [])) fs1) src = Inr (pre @ bad # post)"
        using diff src1 by (simp add: read_lines_def open_r_def update_conv')
      moreover obtain err out where fl: "filter_lines lib K (pre @ bad # post) [] = (err, out)"
        by (cases "filter_lines lib K (pre @ bad # post) []")
      moreover have "err \<noteq> None"
        using filter_lines_bad_line(2) [OF bad, of K pre post "[]"] fl by simp
      ultimately show ?thesis
        using None by (simp add: write_filtered_metadata_def mk rd write_file_def)
    qed
  qed
qed

section \<open>Evaluating the sample data\<close>

lemmas sample_defs = sample_lib_def sample_table_def sample_lines_def 
  py_str_def strip_def isspace_def record_concept_id_def dict_get_def


section \<open>The claims about the two filters\<close>

lemma sample_mkdir_out: "mkdir_p [''out''] sample_fs = (None, sample_fs @ [([''out''], DirN)])"
  by (simp add: mkdir_p_def sample_fs_def is_file_def)

text \<open>
  Claim C1. Let the source file hold text whose non-blank lines all decode, to the records
  \<open>recs\<close> in this order, each with a readable \<open>concept_id\<close>, and let the destination
  be another file. Then \<open>_write_filtered_metadata\<close> creates the parent directory and writes
  exactly one line per record whose \<open>concept_id\<close> is in the keep-set: the same record,
  serialised again, in the order of the source, and nothing else; blank lines give no
  record. A record without the field counts as \<open>-1\<close>. A failure to create the directory
  or to open the destination is passed on.
\<close>

theorem record_filter_writes_kept_records:
  assumes "map_of fs src = Some (FileN (Text lines))"
    and "src \<noteq> dst"
    and "map (loads lib) (filter (\<lambda>l. strip l \<noteq> []) lines) = map Some recs"
    and "\<forall>r\<in>set recs. \<exists>i. record_concept_id lib r = Inr i"
  shows "write_filtered_metadata lib src dst K fs =
           (case mkdir_p (butlast dst) fs of
              (Some e, fs1) \<Rightarrow> (Some e, fs1)
            | (None, fs1) \<Rightarrow>
                write_file dst
                  (Text (map (\<lambda>r. dumps lib r @ [10])
                           (filter (\<lambda>r. record_concept_id lib r \<in> Inr ` K) recs))) fs1) \<and>
         (\<forall>d. map_of d (py_str ''concept_id'') = None \<longrightarrow>
              record_concept_id lib (JObj d) = Inr (- 1))"
  using write_filtered_metadata_records [OF assms]
  by (simp add: record_concept_id_def dict_get_def)

theorem record_filter_writes_kept_records_witness:
  \<open>write_filtered_metadata sample_lib [''data'', ''run'', ''generate'', ''metadata.jsonl'']
     [''out'', ''metadata.jsonl''] {0, 1} sample_fs =
   (None, sample_fs @ [([''out''], DirN),
       ([''out'', ''metadata.jsonl''], FileN (Text [py_str ''{"concept_id": 0}'' @ [10]]))])\<close>
proof -
  let ?recs = "[JObj [(py_str ''concept_id'', JInt 0)], JObj [(py_str ''concept_id'', JInt 2)],
                JObj [(py_str ''text'', JStr (py_str ''a''))]]"
  have bl: "butlast [''out'', ''metadata.jsonl''] = [''out'']" by simp
  have src: "map_of sample_fs [''data'', ''run'', ''generate'', ''metadata.jsonl''] =
      Some (FileN (Text sample_lines))"
    by (simp add: sample_fs_def)
  have diff: "[''data'', ''run'', ''generate'', ''metadata.jsonl''] \<noteq> [''out'', ''metadata.jsonl'']"
    by simp
  have recs: "map (loads sample_lib) (filter (\<lambda>l. strip l \<noteq> []) sample_lines) = map Some ?recs"
    by (simp add: sample_defs)
  have ids: "\<forall>r\<in>set ?recs. \<exists>i. record_concept_id sample_lib r = Inr i"
    by (simp add: sample_defs)
  have out: \<open>map (\<lambda>r. dumps sample_lib r @ [10])
       (filter (\<lambda>r. record_concept_id sample_lib r \<in> Inr ` {0, 1}) ?recs) =
     [py_str ''{"concept_id": 0}'' @ [10]]\<close>
    by (simp add: sample_defs)
  have "write_filtered_metadata sample_lib [''data'', ''run'', ''generate'', ''metadata.jsonl'']
     [''out'', ''metadata.jsonl''] {0, 1} sample_fs =
     write_file [''out'', ''metadata.jsonl''] (Text (map (\<lambda>r. dumps sample_lib r @ [10])
       (filter (\<lambda>r. record_concept_id sample_lib r \<in> Inr ` {0, 1}) ?recs)))
       (sample_fs @ [([''out''], DirN)])"
    using record_filter_writes_kept_records [OF src diff recs ids, of "{0, 1}", THEN conjunct1]
    unfolding bl sample_mkdir_out by (simp only: prod.case option.case)
  also have "\<dots> = (None, sample_fs @ [([''out''], DirN),
       ([''out'', ''metadata.jsonl''], FileN (Text [py_str ''{\"concept_id\": 0}'' @ [10]]))])"
    unfolding out by (simp add: write_file_def open_w_def is_dir_def sample_fs_def)
  finally show ?thesis .
qed


text \<open>
  Claim C2. When the source table has a \<open>concept_id\<close> column, \<open>_filter_parquet\<close> writes
  the table with the same columns and exactly the rows \<open>kept_row\<close> accepts: those whose
  \<open>concept_id\<close> is in the keep-set, and, when \<open>keep_negative\<close> is set and some row has
  \<open>concept_id = -1\<close>, those with \<open>concept_id = -1\<close>. The rows are whole rows of the
  source, each at most once, in the order of the source (\<open>filter\<close>).
\<close>

theorem columnar_filter_keeps_exact_rows:
  assumes "map_of fs src = Some (FileN (Table df))"
    and "''concept_id'' \<in> set (columns df)"
  shows "filter_frame K kn df = Inr (df\<lparr>rows := filter (kept_row K kn df) (rows df)\<rparr>) \<and>
         filter_parquet src dst K kn fs =
           (case mkdir_p (butlast dst) fs of
              (Some e, fs1) \<Rightarrow> (Some e, fs1)
            | (None, fs1) \<Rightarrow>
                write_file dst (Table (df\<lparr>rows := filter (kept_row K kn df) (rows df)\<rparr>)) fs1)"
  using filter_frame_rows [OF assms(2)] filter_parquet_rows [OF assms] by simp

theorem columnar_filter_keeps_exact_rows_witness:
  "filter_parquet [''data'', ''run'', ''generate'', ''train_data.parquet'']
     [''out'', ''train_data.parquet''] {0, 1} True sample_fs =
   (None, sample_fs @ [([''out''], DirN),
       ([''out'', ''train_data.parquet''],
        FileN (Table \<lparr>columns = [''concept_id'', ''label''],
                 rows = [[CInt 0, CInt 7], [CInt (- 1), CInt 8], [CInt (- 1), CInt 5]]\<rparr>))])"
proof -
  have bl: "butlast [''out'', ''train_data.parquet''] = [''out'']" by simp
  have src: "map_of sample_fs [''data'', ''run'', ''generate'', ''train_data.parquet''] =
      Some (FileN (Table sample_frame))"
    by (simp add: sample_fs_def)
  have col: "''concept_id'' \<in> set (columns sample_frame)"
    by (simp add: sample_frame_def)
  have out: "sample_frame\<lparr>rows := filter (kept_row {0, 1} True sample_frame) (rows sample_frame)\<rparr> =
     \<lparr>columns = [''concept_id'', ''label''],
      rows = [[CInt 0, CInt 7], [CInt (- 1), CInt 8], [CInt (- 1), CInt 5]]\<rparr>"
    by (simp add: sample_frame_def kept_row_def row_concept_id_def cell_at_def column_index_def)
  have "filter_parquet [''data'', ''run'', ''generate'', ''train_data.parquet'']
     [''out'', ''train_data.parquet''] {0, 1} True sample_fs =
     write_file [''out'', ''train_data.parquet'']
       (Table (sample_frame\<lparr>rows := filter (kept_row {0, 1} True sample_frame) (rows sample_frame)\<rparr>))
       (sample_fs @ [([''out''], DirN)])"
    using columnar_filter_keeps_exact_rows [OF src col, where K = "{0, 1}" and kn = True
        and dst = "[''out'', ''train_data.parquet'']", THEN conjunct2]
    unfolding bl sample_mkdir_out by (simp only: prod.case option.case)
  also have "\<dots> = (None, sample_fs @ [([''out''], DirN),
       ([''out'', ''train_data.parquet''],
        FileN (Table \<lparr>columns = [''concept_id'', ''label''],
                 rows = [[CInt 0, CInt 7], [CInt (- 1), CInt 8], [CInt (- 1), CInt 5]]\<rparr>))])"
    unfolding out by (simp add: write_file_def open_w_def is_dir_def sample_fs_def)
  finally show ?thesis .
qed


text \<open>
  Claim C10. The \<open>.any()\<close> guard never changes the result: \<open>_filter_parquet\<close> and its
  variant that unites the sentinel rows whenever \<open>keep_negative\<close> is set agree on every
  table, keep-set and flag.
\<close>

theorem any_guard_changes_nothing:
  "filter_frame K kn df = filter_frame_unguarded K kn df \<and>
   filter_parquet src dst K kn fs = filter_parquet_unguarded src dst K kn fs"
  unfolding filter_parquet_def filter_parquet_unguarded_def filter_frame_eq_unguarded
  by simp


text \<open>
  Claim C4 fails as stated: a record whose \<open>concept_id\<close> is \<open>null\<close> is not dropped; the
  filter raises \<open>TypeError\<close> on it, although \<open>-1\<close> is not in the keep-set.
\<close>

theorem malformed_concept_id_counterexample:
  \<open>filter_lines sample_lib {0} [py_str ''{"concept_id": null}'' @ [10]] [] = (Some TypeError, [])\<close>
  by (simp add: sample_defs)


text \<open>
  Claim C4, amended. For a line that decodes as an object, the record filter takes the
  \<open>concept_id\<close> as \<open>-1\<close> only when the field is absent (the record is then dropped unless
  \<open>-1\<close> is in the keep-set); when the field is present and \<open>int\<close> rejects its value, as it
  rejects \<open>null\<close>, the filter raises that exception and stops.
\<close>

theorem concept_id_defaults_only_when_absent:
  assumes "strip line \<noteq> []" and "loads lib line = Some (JObj d)"
  shows "(map_of d (py_str ''concept_id'') = None \<longrightarrow>
            filter_lines lib K (line # rest) out =
              (if - 1 \<in> K then filter_lines lib K rest (out @ [dumps lib (JObj d) @ [10]])
               else filter_lines lib K rest out)) \<and>
         (\<forall>v e. map_of d (py_str ''concept_id'') = Some v \<longrightarrow> py_int lib v = Inl e \<longrightarrow>
            filter_lines lib K (line # rest) out = (Some e, out)) \<and>
         py_int lib JNull = Inl TypeError"
  using assms by (simp add: record_concept_id_def dict_get_def)

theorem concept_id_defaults_only_when_absent_witness:
  \<open>filter_lines sample_lib {0} [py_str ''{"text": "a"}'' @ [10]] [] = (None, [])\<close>
proof -
  have a: \<open>strip (py_str ''{"text": "a"}'' @ [10]) \<noteq> []\<close>
    by (simp add: py_str_def strip_def isspace_def)
  have b: \<open>loads sample_lib (py_str ''{"text": "a"}'' @ [10]) =
      Some (JObj [(py_str ''text'', JStr (py_str ''a''))])\<close>
    by (simp add: sample_defs)
  have c: "map_of [(py_str ''text'', JStr (py_str ''a''))] (py_str ''concept_id'') = None"
    by (simp add: py_str_def)
  show ?thesis
    using concept_id_defaults_only_when_absent [OF a b, of "{0}" "[]" "[]", THEN conjunct1] c
    by simp
qed


text \<open>
  Claim C6. A non-blank line that \<open>json.loads\<close> rejects makes the record filter raise:
  the loop ends with an exception whatever precedes the line, the lines after it play no
  part in the result, the exception is the decoding error when the lines before it went
  through, and \<open>_write_filtered_metadata\<close> as a whole raises on such a file.
\<close>

theorem undecodable_line_aborts_record_filter:
  assumes "strip bad \<noteq> []" and "loads lib bad = None"
  shows "fst (filter_lines lib K (pre @ bad # post) out) \<noteq> None \<and>
         filter_lines lib K (pre @ bad # post) out = filter_lines lib K (pre @ [bad]) out \<and>
         (\<forall>out1. filter_lines lib K pre out = (None, out1) \<longrightarrow>
            filter_lines lib K (pre @ bad # post) out = (Some JSONDecodeError, out1)) \<and>
         (\<forall>fs src dst. map_of fs src = Some (FileN (Text (pre @ bad # post))) \<longrightarrow> src \<noteq> dst \<longrightarrow>
            fst (write_filtered_metadata lib src dst K fs) \<noteq> None)"
  using filter_lines_bad_line [OF assms] write_filtered_metadata_bad_line [OF _ _ assms]
  by blast

theorem undecodable_line_aborts_record_filter_witness:
  \<open>filter_lines sample_lib {0, 2}
     ([py_str ''{"concept_id": 0}'' @ [10]] @ py_str ''{"concept_id": '' #
      [py_str ''{"concept_id": 2}'' @ [10]]) [] =
   (Some JSONDecodeError, [py_str ''{"concept_id": 0}'' @ [10]])\<close>
proof -
  have a: \<open>strip (py_str ''{"concept_id": '') \<noteq> []\<close>
    by (simp add: py_str_def strip_def isspace_def)
  have b: \<open>loads sample_lib (py_str ''{"concept_id": '') = None\<close>
    by (simp add: sample_defs)
  have c: \<open>filter_lines sample_lib {0, 2} [py_str ''{"concept_id": 0}'' @ [10]] [] =
      (None, [py_str ''{"concept_id": 0}'' @ [10]])\<close>
    by (simp add: sample_defs)
  show ?thesis
    using undecodable_line_aborts_record_filter [OF a b, of "{0, 2}"
        \<open>[py_str ''{"concept_id": 0}'' @ [10]]\<close> \<open>[py_str ''{"concept_id": 2}'' @ [10]]\<close> "[]"] c
    by blast
qed


text \<open>
  Claim C7. On a table without a \<open>concept_id\<close> column \<open>_filter_parquet\<close> raises, for every
  keep-set and flag: \<open>KeyError\<close> once the parent directory is made, and nothing is written
  to the destination.
\<close>

theorem columnar_filter_fails_without_concept_id:
  assumes "''concept_id'' \<notin> set (columns df)"
    and "map_of fs src = Some (FileN (Table df))"
  shows "filter_frame K kn df = Inl (KeyError ''concept_id'') \<and>
         fst (filter_parquet src dst K kn fs) \<noteq> None \<and>
         filter_parquet src dst K kn fs =
           (case mkdir_p (butlast dst) fs of
              (Some e, fs1) \<Rightarrow> (Some e, fs1)
            | (None, fs1) \<Rightarrow> (Some (KeyError ''concept_id''), fs1))"
proof -
  have "filter_parquet src dst K kn fs =
           (case mkdir_p (butlast dst) fs of
              (Some e, fs1) \<Rightarrow> (Some e, fs1)
            | (None, fs1) \<Rightarrow> (Some (KeyError ''concept_id''), fs1))"
  proof (cases "mkdir_p (butlast dst) fs")
    case (Pair e fs1)
    show ?thesis
    proof (cases e)
      case (Some err)
      with Pair show ?thesis by (simp add: filter_parquet_def)
    next
      case None
      with Pair have mk: "mkdir_p (butlast dst) fs = (None, fs1)" by simp
      have "read_parquet fs1 src = Inr df"
        using mkdir_p_lookup [OF mk assms(2)] by (simp add: read_parquet_def open_r_def)
      then show ?thesis
        by (simp add: filter_parquet_def mk filter_frame_no_column [OF assms(1)])
    qed
  qed
  then show ?thesis
    using filter_frame_no_column [OF assms(1)] by (auto split: prod.splits option.splits)
qed

theorem columnar_filter_fails_without_concept_id_witness:
  "filter_parquet [''t.parquet''] [''out'', ''t.parquet''] {0} True
     [([], DirN), ([''t.parquet''], FileN (Table \<lparr>columns = [''label''], rows = [[CInt 7]]\<rparr>))] =
   (Some (KeyError ''concept_id''),
     [([], DirN), ([''t.parquet''], FileN (Table \<lparr>columns = [''label''], rows = [[CInt 7]]\<rparr>)),
      ([''out''], DirN)])"
proof -
  have a: "''concept_id'' \<notin> set (columns \<lparr>columns = [''label''], rows = [[CInt 7]]\<rparr>)"
    by simp
  have b: "map_of [([], DirN), ([''t.parquet''], FileN (Table \<lparr>columns = [''label''], rows = [[CInt 7]]\<rparr>))]
      [''t.parquet''] = Some (FileN (Table \<lparr>columns = [''label''], rows = [[CInt 7]]\<rparr>))"
    by simp
  have c: "mkdir_p (butlast [''out'', ''t.parquet''])
      [([], DirN), ([''t.parquet''], FileN (Table \<lparr>columns = [''label''], rows = [[CInt 7]]\<rparr>))] =
     (None, [([], DirN), ([''t.parquet''], FileN (Table \<lparr>columns = [''label''], rows = [[CInt 7]]\<rparr>)),
      ([''out''], DirN)])"
    by (simp add: mkdir_p_def is_file_def)
  show ?thesis
    using columnar_filter_fails_without_concept_id [OF a b, where K = "{0}" and kn = True
        and dst = "[''out'', ''t.parquet'']", THEN conjunct2, THEN conjunct2]
    unfolding c by (simp only: prod.case option.case)
qed

end
